theory Spec2Isabelle
  imports Complex_Main "HOL-Library.Sublist"
begin

section \<open>Values, exceptions and outcomes\<close>

text \<open>
  The audit pipeline (\<^verbatim>\<open>audit_pipeline.py\<close>) handles JSON documents that come from an
  external analyzer and from a block-explorer API. A parsed document is a Python value
  built from \<^verbatim>\<open>None\<close>, booleans, integers, floats, strings, lists and dictionaries.
  Strings are byte strings here; a dictionary is an association list in which the first
  binding of a key is the dictionary's entry for that key.
\<close>

datatype pyfloat = Finite rat | PosInf | NegInf | NaN

datatype json =
    JNull
  | JBool bool
  | JInt int
  | JFloat pyfloat
  | JStr string
  | JList "json list"
  | JObj "(string \<times> json) list"

text \<open>
  An exception is its class and the text \<^verbatim>\<open>str(e)\<close> gives. Only subclasses of
  \<^verbatim>\<open>Exception\<close> occur; interrupts and \<^verbatim>\<open>SystemExit\<close> are outside the model.
\<close>

datatype exn_kind =
    CalledProcessError
  | FileNotFoundError
  | PermissionError
  | OSError
  | TimeoutExpired
  | RequestException
  | JSONDecodeError
  | AttributeError
  | TypeError
  | KeyError
  | IndexError
  | ValueError
  | OverflowError

datatype exn = Exn exn_kind string

text \<open>
  A call returns a value, raises, or never comes back (\<open>Blocks\<close>: a child process that
  is waited for without a time limit and does not exit).
\<close>

datatype 'a outcome = Returns 'a | Raises exn | Blocks

fun obind :: "'a outcome \<Rightarrow> ('a \<Rightarrow> 'b outcome) \<Rightarrow> 'b outcome" where
  "obind (Returns x) f = f x"
| "obind (Raises e) f = Raises e"
| "obind Blocks f = Blocks"

fun lift :: "exn + 'a \<Rightarrow> 'a outcome" where
  "lift (Inl e) = Raises e"
| "lift (Inr x) = Returns x"

text \<open>\<^verbatim>\<open>try: body  except Exception as e: handler(e)\<close>\<close>

fun try_except :: "'a outcome \<Rightarrow> (exn \<Rightarrow> 'a outcome) \<Rightarrow> 'a outcome" where
  "try_except (Returns x) h = Returns x"
| "try_except (Raises e) h = h e"
| "try_except Blocks h = Blocks"

subsection \<open>The operations of Python the code applies to parsed values\<close>

fun type_name :: "json \<Rightarrow> string" where
  "type_name JNull = ''NoneType''"
| "type_name (JBool b) = ''bool''"
| "type_name (JInt n) = ''int''"
| "type_name (JFloat x) = ''float''"
| "type_name (JStr s) = ''str''"
| "type_name (JList xs) = ''list''"
| "type_name (JObj kvs) = ''dict''"

text \<open>Python puts names between apostrophes in its messages.\<close>

definition quoted :: "string \<Rightarrow> string" where
  "quoted s = CHR 0x27 # s @ [CHR 0x27]"

definition no_attribute :: "json \<Rightarrow> string \<Rightarrow> exn" where
  "no_attribute v a =
     Exn AttributeError (quoted (type_name v) @ '' object has no attribute '' @ quoted a)"

text \<open>\<^verbatim>\<open>v.get(k, d)\<close>: only a dictionary has the method.\<close>

fun py_get :: "json \<Rightarrow> string \<Rightarrow> json \<Rightarrow> json outcome" where
  "py_get (JObj kvs) k d = Returns (case map_of kvs k of Some v \<Rightarrow> v | None \<Rightarrow> d)"
| "py_get v k d = Raises (no_attribute v ''get'')"

text \<open>Truth value of a Python object, as \<^verbatim>\<open>if v:\<close> and \<^verbatim>\<open>a and b\<close> test it.\<close>

fun truthy :: "json \<Rightarrow> bool" where
  "truthy JNull = False"
| "truthy (JBool b) = b"
| "truthy (JInt n) = (n \<noteq> 0)"
| "truthy (JFloat (Finite q)) = (q \<noteq> 0)"
| "truthy (JFloat x) = True"
| "truthy (JStr s) = (s \<noteq> [])"
| "truthy (JList xs) = (xs \<noteq> [])"
| "truthy (JObj kvs) = (kvs \<noteq> [])"

text \<open>The keys of a dictionary, each once, in the order of their first binding.\<close>

definition dict_keys :: "(string \<times> json) list \<Rightarrow> string list" where
  "dict_keys kvs = rev (remdups (rev (map fst kvs)))"

text \<open>\<^verbatim>\<open>for x in v\<close>: the items the loop visits, or the \<^verbatim>\<open>TypeError\<close>.\<close>

fun py_iter :: "json \<Rightarrow> json list outcome" where
  "py_iter (JList xs) = Returns xs"
| "py_iter (JObj kvs) = Returns (map JStr (dict_keys kvs))"
| "py_iter (JStr s) = Returns (map (\<lambda>c. JStr [c]) s)"
| "py_iter v = Raises (Exn TypeError (quoted (type_name v) @ '' object is not iterable''))"

fun py_len :: "json \<Rightarrow> nat outcome" where
  "py_len (JList xs) = Returns (length xs)"
| "py_len (JObj kvs) = Returns (length (dict_keys kvs))"
| "py_len (JStr s) = Returns (length s)"
| "py_len v = Raises (Exn TypeError (''object of type '' @ quoted (type_name v) @ '' has no len()''))"

text \<open>
  \<^verbatim>\<open>s.lower()\<close> on the ASCII letters. A byte outside ASCII is left as it is; the code
  only compares the result with ASCII words.
\<close>

definition lower_char :: "char \<Rightarrow> char" where
  "lower_char c =
     (case map_of (zip ''ABCDEFGHIJKLMNOPQRSTUVWXYZ'' ''abcdefghijklmnopqrstuvwxyz'') c of
        Some d \<Rightarrow> d | None \<Rightarrow> c)"

fun py_lower :: "json \<Rightarrow> string outcome" where
  "py_lower (JStr s) = Returns (map lower_char s)"
| "py_lower v = Raises (no_attribute v ''lower'')"

section \<open>The environment\<close>

text \<open>
  What starting a child process leads to: the call fails with an exception of the
  library (the program is missing or may not be executed, its output cannot be
  decoded), the process exits after some seconds (rounded up) with a return code and
  its captured output, or it never exits.
\<close>

record completed_process =
  returncode :: int
  stdout :: string
  stderr :: string

datatype proc_behaviour =
    Call_fails exn
  | Finishes nat completed_process
  | Never_finishes

text \<open>
  Everything outside the program that a run reads: the file system, the environment
  variables, the installed packages, the processes it can start, the block-explorer's
  answers, the clock, and the library functions \<^verbatim>\<open>json.loads\<close>, \<^verbatim>\<open>int\<close> and
  \<^verbatim>\<open>datetime.fromtimestamp(t).isoformat()\<close>. \<open>log_write\<close> is what printing a
  log line does: \<open>None\<close> when the line is written, the exception \<^verbatim>\<open>print\<close> raises
  otherwise (the stream is closed or cannot be written, the text cannot be encoded).
\<close>

datatype log_level = INFO | ERROR

record world =
  path_exists :: "string \<Rightarrow> bool"
  getenv :: "string \<Rightarrow> string option"
  requests_installed :: bool
  process :: "string list \<Rightarrow> proc_behaviour"
  http_get_json :: "string \<Rightarrow> exn + json"
  json_loads :: "string \<Rightarrow> exn + json"
  py_int :: "json \<Rightarrow> exn + int"
  fromtimestamp_iso :: "int \<Rightarrow> exn + string"
  elapsed :: rat
  now_iso :: string
  write_report :: "string option \<Rightarrow> exn option"
  log_write :: "log_level \<Rightarrow> string \<Rightarrow> exn option"

text \<open>The calls that leave the program, in the order they are made.\<close>

record run_args =
  argv :: "string list"
  capture_output :: bool
  text_mode :: bool
  timeout :: "nat option"
  check :: bool

datatype event =
    Subprocess run_args
  | HttpGet string nat

text \<open>
  \<^verbatim>\<open>subprocess.run\<close>: a \<^verbatim>\<open>timeout\<close> ends the wait with \<^verbatim>\<open>TimeoutExpired\<close>;
  \<^verbatim>\<open>check=True\<close> turns a non-zero return code into \<^verbatim>\<open>CalledProcessError\<close>.
  The program only logs the text of these two exceptions, and the model abbreviates
  it.
\<close>

definition subprocess_run :: "world \<Rightarrow> run_args \<Rightarrow> completed_process outcome" where
  "subprocess_run w a =
     (case process w (argv a) of
        Call_fails e \<Rightarrow> Raises e
      | Finishes d cp \<Rightarrow>
          (case timeout a of
             Some t \<Rightarrow>
               if t < d then Raises (Exn TimeoutExpired ''timed out'')
               else if check a \<and> returncode cp \<noteq> 0 then Raises (Exn CalledProcessError ''non-zero exit status'')
               else Returns cp
           | None \<Rightarrow>
               if check a \<and> returncode cp \<noteq> 0 then Raises (Exn CalledProcessError ''non-zero exit status'')
               else Returns cp)
      | Never_finishes \<Rightarrow>
          (case timeout a of
             Some t \<Rightarrow> Raises (Exn TimeoutExpired ''timed out'')
           | None \<Rightarrow> Blocks))"

section \<open>Data model\<close>

datatype AuditLevel = QUICK | STANDARD | DEEP | FORENSIC

fun level_value :: "AuditLevel \<Rightarrow> string" where
  "level_value QUICK = ''quick''"
| "level_value STANDARD = ''standard''"
| "level_value DEEP = ''deep''"
| "level_value FORENSIC = ''forensic''"

record AuditResult =
  tool_name :: string
  severity_count :: "(string \<times> nat) list"
  findings :: json
  execution_time :: rat
  passed :: bool

section \<open>Utility functions\<close>

text \<open>
  \<^verbatim>\<open>check_tool_installed\<close>: the version command of the tool, with
  \<^verbatim>\<open>capture_output=True, check=True\<close> and no \<^verbatim>\<open>timeout\<close>. A name without a branch
  starts nothing. Only \<^verbatim>\<open>CalledProcessError\<close> and \<^verbatim>\<open>FileNotFoundError\<close> are caught.
\<close>

definition version_args :: "string \<Rightarrow> run_args" where
  "version_args exe =
     \<lparr>argv = [exe, ''--version''], capture_output = True, text_mode = False,
      timeout = None, check = True\<rparr>"

definition tool_command :: "string \<Rightarrow> string option" where
  "tool_command tool =
     (if tool = ''slither'' then Some ''slither''
      else if tool = ''mythril'' then Some ''myth''
      else if tool = ''echidna'' then Some ''echidna''
      else if tool = ''certora'' then Some ''certoraRun''
      else None)"

definition check_tool_installed :: "world \<Rightarrow> string \<Rightarrow> bool outcome \<times> event list" where
  "check_tool_installed w tool =
     (case tool_command tool of
        None \<Rightarrow> (Returns True, [])
      | Some exe \<Rightarrow>
          (case subprocess_run w (version_args exe) of
             Returns cp \<Rightarrow> Returns True
           | Raises (Exn k m) \<Rightarrow>
               if k = CalledProcessError \<or> k = FileNotFoundError then Returns False
               else Raises (Exn k m)
           | Blocks \<Rightarrow> Blocks,
           [Subprocess (version_args exe)]))"

definition validate_contract_path :: "world \<Rightarrow> string \<Rightarrow> bool" where
  "validate_contract_path w contract_path =
     (if \<not> path_exists w contract_path then False
      else if \<not> suffix ''.sol'' contract_path then False
      else True)"

section \<open>The Slither wrapper\<close>

definition initial_severity_count :: "(string \<times> nat) list" where
  "initial_severity_count =
     [(''critical'', 0), (''high'', 0), (''medium'', 0), (''low'', 0), (''informational'', 0)]"

text \<open>\<^verbatim>\<open>severity_count[severity] += 1\<close>, for a key that is in the dictionary.\<close>

definition increment :: "string \<Rightarrow> (string \<times> nat) list \<Rightarrow> (string \<times> nat) list" where
  "increment s sc = map (\<lambda>(k, n). if k = s then (k, Suc n) else (k, n)) sc"

text \<open>\<^verbatim>\<open>issue.get("severity", "informational").lower()\<close> (line 163)\<close>

definition severity_of :: "json \<Rightarrow> string outcome" where
  "severity_of issue = obind (py_get issue ''severity'' (JStr ''informational'')) py_lower"

text \<open>The loop over the detections (lines 162 to 165).\<close>

fun count_severities :: "json list \<Rightarrow> (string \<times> nat) list \<Rightarrow> (string \<times> nat) list outcome" where
  "count_severities [] sc = Returns sc"
| "count_severities (issue # rest) sc =
     obind (severity_of issue) (\<lambda>severity.
     count_severities rest
       (if map_of sc severity \<noteq> None then increment severity sc else sc))"

text \<open>\<^verbatim>\<open>findings.get("results", {}).get("detections", [])\<close>\<close>

definition detections :: "json \<Rightarrow> json outcome" where
  "detections doc =
     obind (py_get doc ''results'' (JObj [])) (\<lambda>r. py_get r ''detections'' (JList []))"

text \<open>\<^verbatim>\<open>d[k]\<close> on the severity dictionary raises \<^verbatim>\<open>KeyError\<close> for a missing key.\<close>

definition subscript :: "(string \<times> nat) list \<Rightarrow> string \<Rightarrow> nat outcome" where
  "subscript sc k =
     (case map_of sc k of
        Some n \<Rightarrow> Returns n
      | None \<Rightarrow> Raises (Exn KeyError (quoted k)))"

text \<open>\<^verbatim>\<open>severity_count["critical"] == 0 and severity_count["high"] == 0\<close> (line 168)\<close>

definition verdict :: "(string \<times> nat) list \<Rightarrow> bool outcome" where
  "verdict sc =
     obind (subscript sc ''critical'') (\<lambda>c.
       if c = 0 then obind (subscript sc ''high'') (\<lambda>h. Returns (h = 0))
       else Returns False)"

definition failed_result :: AuditResult where
  "failed_result =
     \<lparr>tool_name = ''Slither'', severity_count = [], findings = JList [],
      execution_time = 0, passed = False\<rparr>"

definition slither_args :: "string \<Rightarrow> run_args" where
  "slither_args contract_path =
     \<lparr>argv = [''slither'', contract_path, ''--json''], capture_output = True,
      text_mode = True, timeout = Some 300, check = False\<rparr>"

text \<open>
  \<^verbatim>\<open>Logger.info\<close> and \<^verbatim>\<open>Logger.error\<close> (lines 86 to 94) print one line, to the
  standard output and to the standard error stream; an exception of \<^verbatim>\<open>print\<close> is
  not caught there. The log lines of \<^verbatim>\<open>SlitherAnalyzer.run\<close> are part of the model,
  with their exceptions. The log lines of the other functions (lines 121, 124, 229,
  230, 244, 250, 299, 305, 313, 329 and 393) are taken as written and are left out.
\<close>

definition Logger_info :: "world \<Rightarrow> string \<Rightarrow> unit outcome" where
  "Logger_info w message =
     (case log_write w INFO message of None \<Rightarrow> Returns () | Some e \<Rightarrow> Raises e)"

definition Logger_error :: "world \<Rightarrow> string \<Rightarrow> unit outcome" where
  "Logger_error w message =
     (case log_write w ERROR message of None \<Rightarrow> Returns () | Some e \<Rightarrow> Raises e)"

text \<open>
  The body of the \<^verbatim>\<open>try\<close> block of \<^verbatim>\<open>SlitherAnalyzer.run\<close> (lines 145 to 185).
  The two readings of the clock (lines 142 and 167) are \<open>elapsed\<close> seconds apart.
\<close>

definition run_try :: "world \<Rightarrow> string \<Rightarrow> AuditResult outcome" where
  "run_try w contract_path =
     obind (subprocess_run w (slither_args contract_path)) (\<lambda>result.
       if returncode result = 0 then
         obind (lift (json_loads w (stdout result))) (\<lambda>doc.
         obind (detections doc) (\<lambda>ds.
         obind (py_iter ds) (\<lambda>issues.
         obind (count_severities issues initial_severity_count) (\<lambda>sc.
         obind (verdict sc) (\<lambda>p.
         obind (detections doc) (\<lambda>fs.
           Returns \<lparr>tool_name = ''Slither'', severity_count = sc, findings = fs,
                    execution_time = elapsed w, passed = p\<rparr>))))))
       else
         obind (Logger_error w (''Slither failed with error: '' @ stderr result)) (\<lambda>u.
           Returns failed_result))"

text \<open>The handler of lines 186 to 194: it logs the exception, then returns.\<close>

fun run_handler :: "world \<Rightarrow> exn \<Rightarrow> AuditResult outcome" where
  "run_handler w (Exn k m) =
     obind (Logger_error w (''Slither execution error: '' @ m)) (\<lambda>u.
       Returns failed_result)"

text \<open>
  \<^verbatim>\<open>SlitherAnalyzer.run\<close>: the log line of line 141 comes before the \<^verbatim>\<open>try\<close>, so
  an exception of it leaves \<open>run\<close> before any process is started; an exception of the
  log line in the handler leaves \<open>run\<close> too.
\<close>

definition run :: "world \<Rightarrow> string \<Rightarrow> AuditResult outcome \<times> event list" where
  "run w contract_path =
     (case Logger_info w ''Running Slither static analysis...'' of
        Returns u \<Rightarrow>
          (try_except (run_try w contract_path) (run_handler w),
           [Subprocess (slither_args contract_path)])
      | Raises e \<Rightarrow> (Raises e, [])
      | Blocks \<Rightarrow> (Blocks, []))"

section \<open>On-chain metadata\<close>

definition ETHERSCAN_API :: string where
  "ETHERSCAN_API = ''https://api.etherscan.io/api''"

definition tx_url :: "string \<Rightarrow> string \<Rightarrow> string" where
  "tx_url contract_address api_key =
     ETHERSCAN_API @ ''?module=account&action=txlist&address='' @ contract_address
       @ ''&startblock=0&endblock=99999999&sort=asc&apikey='' @ api_key"

definition source_url :: "string \<Rightarrow> string \<Rightarrow> string" where
  "source_url contract_address api_key =
     ETHERSCAN_API @ ''?module=contract&action=getsourcecode&address='' @ contract_address
       @ ''&apikey='' @ api_key"

text \<open>
  \<^verbatim>\<open>s.replace(old, new)\<close>: every occurrence of \<open>old\<close>, from the left, without overlap;
  an empty \<open>old\<close> matches before every character and at the end.
\<close>

function replace_str :: "string \<Rightarrow> string \<Rightarrow> string \<Rightarrow> string" where
  "replace_str old new [] = (if old = [] then new else [])"
| "replace_str old new (c # cs) =
     (if old = [] then new @ c # replace_str old new cs
      else if prefix old (c # cs) then new @ replace_str old new (drop (length old) (c # cs))
      else c # replace_str old new cs)"
  by pat_completeness auto
termination
  by (relation "measure (\<lambda>(old, new, s). length s)") (auto simp: neq_Nil_conv)

text \<open>\<^verbatim>\<open>d[k]\<close> on a parsed value; the code applies it to dictionaries it has read with \<^verbatim>\<open>get\<close>.\<close>

fun py_item :: "json \<Rightarrow> string \<Rightarrow> json outcome" where
  "py_item (JObj kvs) k =
     (case map_of kvs k of Some v \<Rightarrow> Returns v | None \<Rightarrow> Raises (Exn KeyError (quoted k)))"
| "py_item v k = Raises (Exn TypeError (quoted (type_name v) @ '' object is not subscriptable''))"

text \<open>
  The loop of lines 275 to 280: the first transaction whose \<^verbatim>\<open>to\<close> is the empty string
  gives the deployer and the creation date; without one both stay as they are.
\<close>

fun find_creation :: "world \<Rightarrow> json list \<Rightarrow> json \<Rightarrow> string \<Rightarrow> (json \<times> string) outcome" where
  "find_creation w [] deployer_address creation_date = Returns (deployer_address, creation_date)"
| "find_creation w (tx # rest) deployer_address creation_date =
     obind (py_get tx ''to'' JNull) (\<lambda>dest.
       if dest = JStr [] then
         obind (py_get tx ''from'' (JStr ''Unknown'')) (\<lambda>sender.
         obind (py_get tx ''timeStamp'' (JInt 0)) (\<lambda>ts.
         obind (lift (py_int w ts)) (\<lambda>timestamp.
         obind (lift (fromtimestamp_iso w timestamp)) (\<lambda>iso.
           Returns (sender, iso)))))
       else find_creation w rest deployer_address creation_date)"

text \<open>Lines 266 to 280: transaction count, deployer address, creation date.\<close>

definition parse_transactions :: "world \<Rightarrow> json \<Rightarrow> (nat \<times> json \<times> string) outcome" where
  "parse_transactions w tx_data =
     obind (py_get tx_data ''status'' JNull) (\<lambda>status.
       if status = JStr ''1'' then
         obind (py_get tx_data ''result'' JNull) (\<lambda>r.
           if truthy r then
             obind (py_item tx_data ''result'') (\<lambda>transactions.
             obind (py_len transactions) (\<lambda>transaction_count.
             obind (py_iter transactions) (\<lambda>txs.
             obind (find_creation w txs (JStr ''Unknown'') ''Unknown'') (\<lambda>(deployer_address, creation_date).
               Returns (transaction_count, deployer_address, creation_date)))))
           else Returns (0, JStr ''Unknown'', ''Unknown''))
       else Returns (0, JStr ''Unknown'', ''Unknown''))"

text \<open>Lines 283 to 287.\<close>

definition first_or_self :: "json \<Rightarrow> json outcome" where
  "first_or_self r =
     (case r of
        JList xs \<Rightarrow>
          (case xs of
             x # rest \<Rightarrow> Returns x
           | [] \<Rightarrow> Raises (Exn IndexError ''list index out of range''))
      | _ \<Rightarrow> Returns r)"

definition parse_verification :: "json \<Rightarrow> string outcome" where
  "parse_verification source_data =
     obind (py_get source_data ''status'' JNull) (\<lambda>status.
       if status = JStr ''1'' then
         obind (py_get source_data ''result'' JNull) (\<lambda>r.
           if truthy r then
             obind (py_item source_data ''result'') (\<lambda>r'.
             obind (first_or_self r') (\<lambda>result.
             obind (py_get result ''SourceCode'' JNull) (\<lambda>src.
               Returns (if truthy src then ''verified'' else ''not_verified''))))
           else Returns ''not_verified'')
       else Returns ''not_verified'')"

text \<open>The \<^verbatim>\<open>try\<close> block of lines 252 to 296: two requests, then the parsing.\<close>

definition fetch_try ::
  "world \<Rightarrow> string \<Rightarrow> string \<Rightarrow> (string \<times> json) list outcome \<times> event list" where
  "fetch_try w contract_address api_key =
     (case http_get_json w (tx_url contract_address api_key) of
        Inl e \<Rightarrow> (Raises e, [HttpGet (tx_url contract_address api_key) 10])
      | Inr tx_data \<Rightarrow>
          (case http_get_json w (source_url contract_address api_key) of
             Inl e \<Rightarrow> Raises e
           | Inr source_data \<Rightarrow>
               obind (parse_transactions w tx_data) (\<lambda>(transaction_count, deployer_address, creation_date).
               obind (parse_verification source_data) (\<lambda>verification_status.
                 Returns
                   [(''contract_address'', JStr contract_address),
                    (''verification_status'', JStr verification_status),
                    (''transaction_count'', JInt (int transaction_count)),
                    (''deployer_address'', deployer_address),
                    (''creation_date'', JStr creation_date),
                    (''api_endpoint'',
                       JStr (replace_str api_key ''***'' (tx_url contract_address api_key)))])),
           [HttpGet (tx_url contract_address api_key) 10,
            HttpGet (source_url contract_address api_key) 10]))"

definition no_address_placeholder :: "(string \<times> json) list" where
  "no_address_placeholder =
     [(''note'', JStr ''No contract address provided. Pass --address parameter to fetch real data.''),
      (''verification_status'', JStr ''unknown''),
      (''transaction_count'', JInt 0)]"

definition simulated_placeholder :: "string \<Rightarrow> (string \<times> json) list" where
  "simulated_placeholder contract_address =
     [(''note'', JStr ''Simulated data - set ETHERSCAN_API_KEY for real on-chain data''),
      (''contract_address'', JStr contract_address),
      (''verification_status'', JStr ''unknown''),
      (''transaction_count'', JInt 0),
      (''deployer_address'', JStr ''0x0000000000000000000000000000000000000000''),
      (''creation_date'', JStr ''Unknown'')]"

text \<open>The two handlers of lines 298 to 309.\<close>

fun fetch_handler :: "string \<Rightarrow> exn \<Rightarrow> (string \<times> json) list outcome" where
  "fetch_handler contract_address (Exn k msg) =
     (if k = RequestException then
        Returns [(''error'', JStr (''Failed to fetch data: '' @ msg)),
                 (''contract_address'', JStr contract_address)]
      else
        Returns [(''error'', JStr (''Unexpected error: '' @ msg)),
                 (''contract_address'', JStr contract_address)])"

definition fetch_etherscan_data ::
  "world \<Rightarrow> string option \<Rightarrow> (string \<times> json) list outcome \<times> event list" where
  "fetch_etherscan_data w contract_address =
     (case contract_address of
        None \<Rightarrow> (Returns no_address_placeholder, [])
      | Some a \<Rightarrow>
          if a = [] then (Returns no_address_placeholder, [])
          else
            (case getenv w ''ETHERSCAN_API_KEY'' of
               None \<Rightarrow> (Returns (simulated_placeholder a), [])
             | Some api_key \<Rightarrow>
                 if api_key = [] then (Returns (simulated_placeholder a), [])
                 else if \<not> requests_installed w then
                   (Returns [(''error'', JStr ''requests library not available''),
                             (''note'', JStr ''Install requests: pip install requests'')], [])
                 else
                   (case fetch_try w a api_key of
                      (r, evs) \<Rightarrow> (try_except r (fetch_handler a), evs))))"

section \<open>The pipeline\<close>

record metadata =
  contract_address :: "string option"
  etherscan_data :: "(string \<times> json) list option"

record AuditPipeline =
  contract_path :: string
  audit_level :: AuditLevel
  results :: "AuditResult list"
  metadata :: metadata

text \<open>
  The report: the error dictionary of line 317, or the dictionary of lines 332 to 346,
  whose \<^verbatim>\<open>results\<close> hold for each tool its name, verdict, severity counts and time.
\<close>

record audit_report =
  report_contract :: string
  report_audit_level :: string
  report_timestamp :: string
  report_results :: "(string \<times> bool \<times> (string \<times> nat) list \<times> rat) list"
  report_metadata :: metadata

datatype report = Error_report string | Report audit_report

definition compile_report :: "world \<Rightarrow> AuditPipeline \<Rightarrow> report" where
  "compile_report w p =
     Report
       \<lparr>report_contract = contract_path p,
        report_audit_level = level_value (audit_level p),
        report_timestamp = now_iso w,
        report_results =
          map (\<lambda>r. (tool_name r, passed r, severity_count r, execution_time r)) (results p),
        report_metadata = metadata p\<rparr>"

definition run_audit ::
  "world \<Rightarrow> AuditPipeline \<Rightarrow> (report \<times> AuditPipeline) outcome \<times> event list" where
  "run_audit w p =
     (if \<not> validate_contract_path w (contract_path p) then
        (Returns (Error_report ''Invalid contract path'', p), [])
      else
        (case fetch_etherscan_data w (contract_address (metadata p)) of
           (Raises e, ev1) \<Rightarrow> (Raises e, ev1)
         | (Blocks, ev1) \<Rightarrow> (Blocks, ev1)
         | (Returns data, ev1) \<Rightarrow>
             (let p1 = p\<lparr>metadata := (metadata p)\<lparr>etherscan_data := Some data\<rparr>\<rparr> in
              if audit_level p1 \<in> set [QUICK, STANDARD, DEEP, FORENSIC] then
                (case check_tool_installed w ''slither'' of
                   (Raises e, ev2) \<Rightarrow> (Raises e, ev1 @ ev2)
                 | (Blocks, ev2) \<Rightarrow> (Blocks, ev1 @ ev2)
                 | (Returns installed, ev2) \<Rightarrow>
                     if installed then
                       (case run w (contract_path p1) of
                          (res, ev3) \<Rightarrow>
                            (obind res (\<lambda>r.
                               let p2 = p1\<lparr>results := results p1 @ [r]\<rparr>
                               in Returns (compile_report w p2, p2)),
                             ev1 @ ev2 @ ev3))
                     else (Returns (compile_report w p1, p1), ev1 @ ev2))
              else (Returns (compile_report w p1, p1), ev1))))"

section \<open>The entry point\<close>

record args =
  contract :: string
  level :: AuditLevel
  address :: "string option"
  output_file :: "string option"

definition new_pipeline :: "args \<Rightarrow> AuditPipeline" where
  "new_pipeline a =
     \<lparr>contract_path = contract a, audit_level = level a, results = [],
      metadata =
        \<lparr>contract_address =
           (case address a of None \<Rightarrow> None | Some s \<Rightarrow> if s = [] then None else Some s),
         etherscan_data = None\<rparr>\<rparr>"

text \<open>Lines 398 and 399: \<^verbatim>\<open>all(r.passed for r in pipeline.results)\<close> decides the exit code.\<close>

definition exit_code :: "AuditResult list \<Rightarrow> int" where
  "exit_code rs = (if list_all passed rs then 0 else 1)"

definition main :: "world \<Rightarrow> args \<Rightarrow> int outcome \<times> event list" where
  "main w a =
     (case run_audit w (new_pipeline a) of
        (r, evs) \<Rightarrow>
          (obind r (\<lambda>(rep, pipeline).
             case write_report w (output_file a) of
               Some e \<Rightarrow> Raises e
             | None \<Rightarrow> Returns (exit_code (results pipeline))),
           evs))"

section \<open>Sample environments\<close>

text \<open>
  Concrete environments on which the theorems below are exercised. In \<open>base_world\<close> the
  file \<^verbatim>\<open>Token.sol\<close> exists, no tool is installed, no API key is set, the network
  is down and every log line is written.
\<close>

definition base_world :: world where
  "base_world =
     \<lparr>path_exists = (\<lambda>p. p = ''Token.sol''),
      getenv = (\<lambda>k. None),
      requests_installed = True,
      process = (\<lambda>a. Call_fails (Exn FileNotFoundError ''No such file or directory'')),
      http_get_json = (\<lambda>u. Inl (Exn RequestException ''Connection refused'')),
      json_loads = (\<lambda>s. Inl (Exn JSONDecodeError ''Expecting value'')),
      py_int =
        (\<lambda>j. case j of
           JInt n \<Rightarrow> Inr n
         | JStr s \<Rightarrow>
             if s = ''1438269988'' then Inr 1438269988
             else Inl (Exn ValueError ''invalid literal for int() with base 10'')
         | _ \<Rightarrow> Inl (Exn TypeError ''int() argument must be a string or a real number'')),
      fromtimestamp_iso =
        (\<lambda>t. if t = 1438269988 then Inr ''2015-07-30T15:26:28''
             else if t = 0 then Inr ''1970-01-01T00:00:00''
             else Inl (Exn OverflowError ''timestamp out of range'')),
      elapsed = 2,
      now_iso = ''2024-05-01T12:00:00'',
      write_report = (\<lambda>p. None),
      log_write = (\<lambda>l m. None)\<rparr>"

text \<open>
  Slither is installed; the analysis of any contract behaves as \<open>b\<close> and
  \<^verbatim>\<open>json.loads\<close> of its output gives \<open>parsed\<close>.
\<close>

definition slither_world :: "proc_behaviour \<Rightarrow> exn + json \<Rightarrow> world" where
  "slither_world b parsed =
     base_world
       \<lparr>process :=
          (\<lambda>a. if a = [''slither'', ''--version'']
               then Finishes 1 \<lparr>returncode = 0, stdout = ''0.10.0'', stderr = []\<rparr>
               else b),
        json_loads := (\<lambda>s. parsed)\<rparr>"

definition exit_ok :: proc_behaviour where
  "exit_ok = Finishes 4 \<lparr>returncode = 0, stdout = ''{...}'', stderr = []\<rparr>"

definition exit_failed :: proc_behaviour where
  "exit_failed = Finishes 4 \<lparr>returncode = 1, stdout = [], stderr = ''Compilation failed''\<rparr>"

text \<open>An analyzer report with four detections: one has no severity, one an unknown one.\<close>

definition sample_detections :: "json list" where
  "sample_detections =
     [JObj [(''check'', JStr ''reentrancy-eth''), (''severity'', JStr ''High'')],
      JObj [(''check'', JStr ''naming-convention'')],
      JObj [(''check'', JStr ''custom''), (''severity'', JStr ''Optimization'')],
      JObj [(''check'', JStr ''solc-version''), (''severity'', JStr ''INFORMATIONAL'')]]"

definition sample_report :: json where
  "sample_report =
     JObj [(''success'', JBool True),
           (''results'', JObj [(''detections'', JList sample_detections)])]"

text \<open>An API key is set; the block explorer answers each URL as \<open>h\<close> says.\<close>

definition etherscan_world :: "(string \<Rightarrow> exn + json) \<Rightarrow> world" where
  "etherscan_world h =
     base_world
       \<lparr>getenv := (\<lambda>k. if k = ''ETHERSCAN_API_KEY'' then Some ''SECRET'' else None),
        http_get_json := h\<rparr>"

text \<open>The result \<open>run\<close> gives for \<open>sample_report\<close>.\<close>

definition sample_result :: AuditResult where
  "sample_result =
     \<lparr>tool_name = ''Slither'',
      severity_count =
        [(''critical'', 0), (''high'', 1), (''medium'', 0), (''low'', 0), (''informational'', 2)],
      findings = JList sample_detections,
      execution_time = 2,
      passed = False\<rparr>"

text \<open>
  The number of findings a severity dictionary has counted in a bucket
  (\<^verbatim>\<open>severity_count.get(bucket, 0)\<close>): a dictionary without the bucket has counted none.
\<close>

definition bucket_count :: "(string \<times> nat) list \<Rightarrow> string \<Rightarrow> nat" where
  "bucket_count sc bucket = (case map_of sc bucket of Some n \<Rightarrow> n | None \<Rightarrow> 0)"

text \<open>Every command behaves as \<open>b\<close>.\<close>

definition tool_world :: "proc_behaviour \<Rightarrow> world" where
  "tool_world b = base_world\<lparr>process := (\<lambda>a. b)\<rparr>"


definition sample_args :: args where
  "sample_args = \<lparr>contract = ''Token.sol'', level = QUICK, address = None, output_file = None\<rparr>"

text \<open>Two transactions of a contract: an ordinary one, and the one that created it.\<close>

definition tx_plain :: json where
  "tx_plain =
     JObj [(''hash'', JStr ''0x01''), (''from'', JStr ''0xaaa''), (''to'', JStr ''0xc0ffee''),
           (''timeStamp'', JStr ''1438270000'')]"

definition tx_create :: json where
  "tx_create =
     JObj [(''hash'', JStr ''0x02''), (''from'', JStr ''0xdeployer''), (''to'', JStr []),
           (''timeStamp'', JStr ''1438269988'')]"

definition tx_answer :: "string \<Rightarrow> json list \<Rightarrow> json" where
  "tx_answer status txs =
     JObj [(''status'', JStr status), (''message'', JStr ''-''), (''result'', JList txs)]"

definition source_answer :: json where
  "source_answer =
     JObj [(''status'', JStr ''1''), (''message'', JStr ''OK''),
           (''result'', JList [JObj [(''SourceCode'', JStr ''contract Token {}''),
                                     (''ContractName'', JStr ''Token'')]])]"

text \<open>
  The block explorer answers the two requests for the contract \<^verbatim>\<open>0xc0ffee\<close> with
  \<open>txd\<close> and \<open>sd\<close>.
\<close>

definition explorer :: "json \<Rightarrow> json \<Rightarrow> string \<Rightarrow> exn + json" where
  "explorer txd sd u =
     (if u = tx_url ''0xc0ffee'' ''SECRET'' then Inr txd
      else if u = source_url ''0xc0ffee'' ''SECRET'' then Inr sd
      else Inl (Exn RequestException ''404 Client Error''))"

text \<open>
  No connection: the message of \<^verbatim>\<open>requests.ConnectionError\<close> names the host and the
  path and query of the URL it could not reach.
\<close>

definition connection_error_text :: "string \<Rightarrow> string" where
  "connection_error_text u =
     ''HTTPSConnectionPool(host='' @ quoted ''api.etherscan.io''
       @ '', port=443): Max retries exceeded with url: ''
       @ drop (length ''https://api.etherscan.io'') u"

definition unreachable :: "string \<Rightarrow> exn + json" where
  "unreachable u = Inl (Exn RequestException (connection_error_text u))"

text \<open>\<^verbatim>\<open>sub in s\<close> on strings, and whether a string occurs in some string of a value.\<close>

fun occurs_in :: "string \<Rightarrow> string \<Rightarrow> bool" where
  "occurs_in sub [] = (sub = [])"
| "occurs_in sub (c # cs) = (prefix sub (c # cs) \<or> occurs_in sub cs)"

fun mentions :: "string \<Rightarrow> json \<Rightarrow> bool" where
  "mentions key (JStr s) = occurs_in key s"
| "mentions key (JList xs) = list_ex (mentions key) xs"
| "mentions key (JObj kvs) = list_ex (\<lambda>kv. occurs_in key (fst kv) \<or> mentions key (snd kv)) kvs"
| "mentions key v = False"

text \<open>The standard error stream cannot be written: every error line fails.\<close>

definition broken_stderr_world :: world where
  "broken_stderr_world =
     base_world
       \<lparr>log_write :=
          (\<lambda>l m. if l = ERROR then Some (Exn OSError ''[Errno 5] Input/output error'') else None)\<rparr>"




section \<open>Outcomes of the building blocks\<close>

lemma obind_Returns_iff:
  "obind m f = Returns y \<longleftrightarrow> (\<exists>x. m = Returns x \<and> f x = Returns y)"
  by (cases m) auto

lemma obind_Blocks_iff:
  "obind m f = Blocks \<longleftrightarrow> m = Blocks \<or> (\<exists>x. m = Returns x \<and> f x = Blocks)"
  by (cases m) auto

lemma lift_not_Blocks: "lift s \<noteq> Blocks"
  by (cases s) auto

lemma py_get_not_Blocks: "py_get v k d \<noteq> Blocks"
  by (cases v) auto

lemma py_lower_not_Blocks: "py_lower v \<noteq> Blocks"
  by (cases v) auto

lemma py_iter_not_Blocks: "py_iter v \<noteq> Blocks"
  by (cases v) auto

lemma severity_of_not_Blocks: "severity_of issue \<noteq> Blocks"
  by (simp add: severity_of_def obind_Blocks_iff py_get_not_Blocks py_lower_not_Blocks)

lemma detections_not_Blocks: "detections doc \<noteq> Blocks"
  by (simp add: detections_def obind_Blocks_iff py_get_not_Blocks)

lemma count_severities_not_Blocks: "count_severities issues sc \<noteq> Blocks"
  by (induction issues arbitrary: sc) (auto simp: obind_Blocks_iff severity_of_not_Blocks)

lemma verdict_not_Blocks: "verdict sc \<noteq> Blocks"
  by (auto simp: verdict_def subscript_def obind_Blocks_iff split: option.splits)

lemma Logger_error_not_Blocks: "Logger_error w message \<noteq> Blocks"
  by (simp add: Logger_error_def split: option.splits)

lemma Logger_info_not_Blocks: "Logger_info w message \<noteq> Blocks"
  by (simp add: Logger_info_def split: option.splits)

lemma subprocess_run_timeout_not_Blocks:
  "timeout a \<noteq> None \<Longrightarrow> subprocess_run w a \<noteq> Blocks"
  by (auto simp: subprocess_run_def split: proc_behaviour.splits option.splits)

section \<open>The Slither wrapper: failure paths\<close>

lemma run_try_not_Blocks: "run_try w path \<noteq> Blocks"
  by (auto simp: run_try_def obind_Blocks_iff subprocess_run_timeout_not_Blocks slither_args_def
      lift_not_Blocks detections_not_Blocks py_iter_not_Blocks count_severities_not_Blocks
      verdict_not_Blocks Logger_error_not_Blocks)

lemma run_handler_not_Blocks: "run_handler w e \<noteq> Blocks"
  by (cases e) (simp add: obind_Blocks_iff Logger_error_not_Blocks)

text \<open>The result of \<open>run\<close>: the first log line, then the \<^verbatim>\<open>try\<close> block under its handler.\<close>

lemma run_outcome:
  "fst (run w path) =
     obind (Logger_info w ''Running Slither static analysis...'') (\<lambda>u.
       try_except (run_try w path) (run_handler w))"
  by (cases "Logger_info w ''Running Slither static analysis...''") (simp_all add: run_def)

lemma run_not_Blocks: "fst (run w path) \<noteq> Blocks"
  using run_try_not_Blocks [of w path] run_handler_not_Blocks [of w]
  by (cases "run_try w path")
    (auto simp: run_outcome obind_Blocks_iff Logger_info_not_Blocks)

lemma logs_written:
  assumes "\<forall>level message. log_write w level message = None"
  shows "Logger_info w message = Returns ()" and "Logger_error w message = Returns ()"
    and "run_handler w e = Returns failed_result"
  using assms by (cases e; simp add: Logger_info_def Logger_error_def)+

lemma run_cases:
  assumes "log_write w INFO ''Running Slither static analysis...'' = None"
    and "\<forall>m. log_write w ERROR (''Slither execution error: '' @ m) = None"
  shows "fst (run w path) =
     (case run_try w path of Returns r \<Rightarrow> Returns r | _ \<Rightarrow> Returns failed_result)"
proof -
  have info: "Logger_info w ''Running Slither static analysis...'' = Returns ()"
    using assms(1) by (simp add: Logger_info_def)
  have handler: "run_handler w e = Returns failed_result" for e
    using assms(2) by (cases e) (simp add: Logger_error_def)
  show ?thesis
    using run_try_not_Blocks [of w path]
    by (cases "run_try w path") (auto simp: run_outcome info handler)
qed

lemma slither_outcome:
  "subprocess_run w (slither_args path) =
     (case process w [''slither'', path, ''--json''] of
        Call_fails e \<Rightarrow> Raises e
      | Finishes d cp \<Rightarrow>
          if 300 < d then Raises (Exn TimeoutExpired ''timed out'') else Returns cp
      | Never_finishes \<Rightarrow> Raises (Exn TimeoutExpired ''timed out''))"
  by (simp add: subprocess_run_def slither_args_def split: proc_behaviour.splits)

text \<open>
  Claim C3, as the code has it. As long as the first log line of \<open>run\<close> and the log
  line of its handler are written, whatever goes wrong with the analyzer, \<open>run\<close>
  returns the failed result and raises nothing: when the call that starts the process fails, when the process does not exit
  within the 300 seconds (or never), when it exits with a non-zero code, when its
  output does not parse, and when anything else in the \<^verbatim>\<open>try\<close> block raises. The
  failed result has no severity counts, no findings, execution time zero and verdict
  false. For every such environment \<open>run\<close> returns a result.
\<close>

theorem run_failure_paths:
  assumes "log_write w INFO ''Running Slither static analysis...'' = None"
    and "\<forall>m. log_write w ERROR (''Slither execution error: '' @ m) = None"
  shows "(process w [''slither'', path, ''--json''] = Call_fails e
      \<longrightarrow> fst (run w path) = Returns failed_result)
   \<and> (process w [''slither'', path, ''--json''] = Never_finishes
      \<longrightarrow> fst (run w path) = Returns failed_result)
   \<and> (process w [''slither'', path, ''--json''] = Finishes d cp \<and> 300 < d
      \<longrightarrow> fst (run w path) = Returns failed_result)
   \<and> (process w [''slither'', path, ''--json''] = Finishes d cp \<and> returncode cp \<noteq> 0
      \<longrightarrow> fst (run w path) = Returns failed_result)
   \<and> (process w [''slither'', path, ''--json''] = Finishes d cp \<and> json_loads w (stdout cp) = Inl e
      \<longrightarrow> fst (run w path) = Returns failed_result)
   \<and> (run_try w path = Raises e \<longrightarrow> fst (run w path) = Returns failed_result)
   \<and> (\<exists>r. fst (run w path) = Returns r)
   \<and> severity_count failed_result = [] \<and> findings failed_result = JList []
   \<and> execution_time failed_result = 0 \<and> \<not> passed failed_result"
proof -
  note cases = run_cases [OF assms]
  have total: "\<exists>r. fst (run w path) = Returns r"
    by (simp add: cases split: outcome.splits)
  have spawn: "process w [''slither'', path, ''--json''] = Call_fails e
      \<longrightarrow> fst (run w path) = Returns failed_result"
    by (simp add: cases run_try_def slither_outcome)
  have never: "process w [''slither'', path, ''--json''] = Never_finishes
      \<longrightarrow> fst (run w path) = Returns failed_result"
    by (simp add: cases run_try_def slither_outcome)
  have late: "process w [''slither'', path, ''--json''] = Finishes d cp \<and> 300 < d
      \<longrightarrow> fst (run w path) = Returns failed_result"
    by (simp add: cases run_try_def slither_outcome)
  have nonzero: "process w [''slither'', path, ''--json''] = Finishes d cp \<and> returncode cp \<noteq> 0
      \<longrightarrow> fst (run w path) = Returns failed_result"
    by (simp add: cases run_try_def slither_outcome Logger_error_def split: option.splits)
  have malformed: "process w [''slither'', path, ''--json''] = Finishes d cp
      \<and> json_loads w (stdout cp) = Inl e \<longrightarrow> fst (run w path) = Returns failed_result"
    by (simp add: cases run_try_def slither_outcome Logger_error_def split: option.splits)
  have raised: "run_try w path = Raises e \<longrightarrow> fst (run w path) = Returns failed_result"
    by (simp add: cases)
  show ?thesis
    using total spawn never late nonzero malformed raised by (simp add: failed_result_def)
qed

lemma sample_logs:
  "\<forall>level message. log_write base_world level message = None"
  "\<forall>level message. log_write (slither_world b parsed) level message = None"
  by (simp_all add: slither_world_def base_world_def)

lemma sample_run_logs:
  "log_write base_world INFO ''Running Slither static analysis...'' = None"
  "\<forall>m. log_write base_world ERROR (''Slither execution error: '' @ m) = None"
  "log_write (slither_world b parsed) INFO ''Running Slither static analysis...'' = None"
  "\<forall>m. log_write (slither_world b parsed) ERROR (''Slither execution error: '' @ m) = None"
  using sample_logs by blast+

theorem run_failure_paths_witness:
  "fst (run base_world ''Token.sol'') = Returns failed_result
   \<and> fst (run (slither_world Never_finishes (Inr sample_report)) ''Token.sol'') = Returns failed_result
   \<and> fst (run (slither_world (Finishes 301 \<lparr>returncode = 0, stdout = ''{...}'', stderr = []\<rparr>)
         (Inr sample_report)) ''Token.sol'') = Returns failed_result
   \<and> fst (run (slither_world exit_failed (Inr sample_report)) ''Token.sol'') = Returns failed_result
   \<and> fst (run (slither_world exit_ok (Inl (Exn JSONDecodeError ''Expecting value''))) ''Token.sol'')
       = Returns failed_result
   \<and> run_try (slither_world exit_ok (Inr (JList []))) ''Token.sol''
       = Raises (no_attribute (JList []) ''get'')
   \<and> fst (run (slither_world exit_ok (Inr (JList []))) ''Token.sol'') = Returns failed_result"
proof -
  let ?cmd = "[''slither'', ''Token.sol'', ''--json'']"
  have a: "process base_world ?cmd = Call_fails (Exn FileNotFoundError ''No such file or directory'')"
    by (simp add: base_world_def)
  have b: "process (slither_world Never_finishes (Inr sample_report)) ?cmd = Never_finishes"
    by (simp add: slither_world_def base_world_def)
  have c: "process (slither_world (Finishes 301 \<lparr>returncode = 0, stdout = ''{...}'', stderr = []\<rparr>)
         (Inr sample_report)) ?cmd = Finishes 301 \<lparr>returncode = 0, stdout = ''{...}'', stderr = []\<rparr>
       \<and> (300::nat) < 301"
    by (simp add: slither_world_def base_world_def)
  have d: "process (slither_world exit_failed (Inr sample_report)) ?cmd
         = Finishes 4 \<lparr>returncode = 1, stdout = [], stderr = ''Compilation failed''\<rparr>
       \<and> returncode \<lparr>returncode = 1, stdout = [], stderr = ''Compilation failed''\<rparr> \<noteq> 0"
    by (simp add: slither_world_def base_world_def exit_failed_def)
  have e: "process (slither_world exit_ok (Inl (Exn JSONDecodeError ''Expecting value''))) ?cmd
         = Finishes 4 \<lparr>returncode = 0, stdout = ''{...}'', stderr = []\<rparr>
       \<and> json_loads (slither_world exit_ok (Inl (Exn JSONDecodeError ''Expecting value'')))
           (stdout \<lparr>returncode = 0, stdout = ''{...}'', stderr = []\<rparr>)
         = Inl (Exn JSONDecodeError ''Expecting value'')"
    by (simp add: slither_world_def base_world_def exit_ok_def)
  have f: "run_try (slither_world exit_ok (Inr (JList []))) ''Token.sol''
       = Raises (no_attribute (JList []) ''get'')"
    by (simp add: run_try_def slither_outcome slither_world_def base_world_def exit_ok_def
        detections_def)
  have 1: "fst (run base_world ''Token.sol'') = Returns failed_result"
    by (rule run_failure_paths [OF sample_run_logs(1,2), THEN conjunct1, rule_format, OF a])
  have 2: "fst (run (slither_world Never_finishes (Inr sample_report)) ''Token.sol'')
      = Returns failed_result"
    by (rule run_failure_paths [OF sample_run_logs(3,4), THEN conjunct2, THEN conjunct1, rule_format, OF b])
  have 3: "fst (run (slither_world (Finishes 301 \<lparr>returncode = 0, stdout = ''{...}'', stderr = []\<rparr>)
         (Inr sample_report)) ''Token.sol'') = Returns failed_result"
    by (rule run_failure_paths [OF sample_run_logs(3,4), THEN conjunct2, THEN conjunct2, THEN conjunct1,
          rule_format, OF c])
  have 4: "fst (run (slither_world exit_failed (Inr sample_report)) ''Token.sol'')
      = Returns failed_result"
    by (rule run_failure_paths [OF sample_run_logs(3,4), THEN conjunct2, THEN conjunct2, THEN conjunct2,
          THEN conjunct1, rule_format, OF d])
  have 5: "fst (run (slither_world exit_ok (Inl (Exn JSONDecodeError ''Expecting value'')))
      ''Token.sol'') = Returns failed_result"
    by (rule run_failure_paths [OF sample_run_logs(3,4), THEN conjunct2, THEN conjunct2, THEN conjunct2,
          THEN conjunct2, THEN conjunct1, rule_format, OF e])
  have 6: "fst (run (slither_world exit_ok (Inr (JList []))) ''Token.sol'') = Returns failed_result"
    by (rule run_failure_paths [OF sample_run_logs(3,4), THEN conjunct2, THEN conjunct2, THEN conjunct2,
          THEN conjunct2, THEN conjunct2, THEN conjunct1, rule_format, OF f])
  from 1 2 3 4 5 f 6 show ?thesis by (intro conjI)
qed

text \<open>
  When \<open>run\<close> raises: the first log line fails, or the \<^verbatim>\<open>try\<close> block raises and the
  log line of the handler fails.
\<close>

lemma run_raises_iff:
  "fst (run w path) = Raises e \<longleftrightarrow>
     log_write w INFO ''Running Slither static analysis...'' = Some e
     \<or> (log_write w INFO ''Running Slither static analysis...'' = None
        \<and> (\<exists>k m. run_try w path = Raises (Exn k m)
              \<and> log_write w ERROR (''Slither execution error: '' @ m) = Some e))"
proof (cases "run_try w path")
  case (Returns r)
  then show ?thesis
    by (auto simp: run_outcome Logger_info_def split: option.splits)
next
  case (Raises x)
  then show ?thesis
    by (cases x) (auto simp: run_outcome Logger_info_def Logger_error_def split: option.splits)
next
  case Blocks
  with run_try_not_Blocks show ?thesis by blast
qed

text \<open>
  The claim as the specification states it fails when the log line of the handler
  cannot be written: Slither cannot be started, the handler catches the exception,
  and the exception of its own log line leaves \<open>run\<close>.
\<close>

theorem run_failure_paths_counterexample:
  "process broken_stderr_world [''slither'', ''Token.sol'', ''--json'']
     = Call_fails (Exn FileNotFoundError ''No such file or directory'')
   \<and> log_write broken_stderr_world ERROR (''Slither execution error: '' @ ''No such file or directory'')
       = Some (Exn OSError ''[Errno 5] Input/output error'')
   \<and> fst (run broken_stderr_world ''Token.sol'') = Raises (Exn OSError ''[Errno 5] Input/output error'')"
  by code_simp

section \<open>The Slither wrapper: the success path\<close>

lemma increment_keys: "map fst (increment s sc) = map fst sc"
  by (induction sc) (auto simp: increment_def)

text \<open>The loop adds to each bucket the number of issues whose severity is that bucket.\<close>

lemma count_severities_adds:
  "count_severities issues sc = Returns sc' \<Longrightarrow>
   sc' = map (\<lambda>(k, n). (k, n + length (filter (\<lambda>i. severity_of i = Returns k) issues))) sc"
proof (induction issues arbitrary: sc)
  case Nil
  then show ?case by simp
next
  case (Cons issue rest)
  from Cons.prems obtain s where s: "severity_of issue = Returns s"
    and rest: "count_severities rest (if map_of sc s \<noteq> None then increment s sc else sc) = Returns sc'"
    by (auto simp: obind_Returns_iff)
  show ?case
  proof (cases "map_of sc s \<noteq> None")
    case True
    with rest have "count_severities rest (increment s sc) = Returns sc'" by simp
    from Cons.IH [OF this] show ?thesis
      using s by (auto simp: increment_def)
  next
    case False
    then have absent: "s \<notin> fst ` set sc" by (simp add: map_of_eq_None_iff)
    from False rest have "count_severities rest sc = Returns sc'" by simp
    from Cons.IH [OF this] show ?thesis
      using s absent by (auto simp: rev_image_eqI)
  qed
qed




text \<open>What the \<^verbatim>\<open>try\<close> block returns when the analyzer exits with code 0.\<close>

lemma run_try_success:
  assumes "process w [''slither'', path, ''--json''] = Finishes d cp"
    and "returncode cp = 0"
    and "run_try w path = Returns r"
  shows "\<exists>doc issues.
      json_loads w (stdout cp) = Inr doc
      \<and> detections doc = Returns (findings r)
      \<and> py_iter (findings r) = Returns issues
      \<and> count_severities issues initial_severity_count = Returns (severity_count r)
      \<and> verdict (severity_count r) = Returns (passed r)
      \<and> execution_time r = elapsed w"
proof -
  from assms(3) have "\<not> 300 < d"
    using assms(1) by (auto simp: run_try_def slither_outcome)
  with assms obtain doc where doc: "json_loads w (stdout cp) = Inr doc"
    by (cases "json_loads w (stdout cp)") (auto simp: run_try_def slither_outcome)
  with assms \<open>\<not> 300 < d\<close> show ?thesis
    by (auto simp: run_try_def slither_outcome obind_Returns_iff)
qed

lemma run_success:
  "run_try w path = Returns r \<Longrightarrow>
   fst (run w path) = obind (Logger_info w ''Running Slither static analysis...'') (\<lambda>u. Returns r)"
  by (simp add: run_outcome)









lemma sample_run_try:
  "run_try (slither_world exit_ok (Inr sample_report)) ''Token.sol'' = Returns sample_result"
  by code_simp







section \<open>The verdict\<close>

lemma verdict_Returns:
  "verdict sc = Returns p \<Longrightarrow>
   (\<exists>c. map_of sc ''critical'' = Some c \<and> (c = 0 \<longrightarrow> (\<exists>h. map_of sc ''high'' = Some h \<and> p = (h = 0)))
        \<and> (c \<noteq> 0 \<longrightarrow> \<not> p))"
  by (auto simp: verdict_def subscript_def obind_Returns_iff split: option.splits if_splits)

lemma run_result_cases:
  assumes "fst (run w path) = Returns r"
  shows "r = failed_result
    \<or> (\<exists>issues. count_severities issues initial_severity_count = Returns (severity_count r)
          \<and> verdict (severity_count r) = Returns (passed r))"
proof -
  from assms have body: "try_except (run_try w path) (run_handler w) = Returns r"
    by (auto simp: run_outcome obind_Returns_iff)
  show ?thesis
  proof (cases "run_try w path")
    case (Returns r')
    with body have r: "r' = r" by simp
    show ?thesis
    proof (cases "process w [''slither'', path, ''--json'']")
      case (Finishes d cp)
      show ?thesis
      proof (cases "returncode cp = 0")
        case True
        from run_try_success [OF Finishes True] Returns r show ?thesis by blast
      next
        case False
        with Finishes Returns r show ?thesis
          by (auto simp: run_try_def slither_outcome obind_Returns_iff split: if_splits)
      qed
    next
      case (Call_fails e)
      with Returns show ?thesis by (simp add: run_try_def slither_outcome)
    next
      case Never_finishes
      with Returns show ?thesis by (simp add: run_try_def slither_outcome)
    qed
  next
    case (Raises e)
    with body show ?thesis by (cases e) (auto simp: obind_Returns_iff)
  next
    case Blocks
    with run_try_not_Blocks show ?thesis by blast
  qed
qed

text \<open>
  Claim C1, as the code has it. A result of the success path holds the five buckets,
  and its verdict is true exactly when the critical and the high count are both zero.
  Every failure path returns the failed result: no severity counts at all, verdict
  false. So for every result the verdict is true exactly when the dictionary has an
  entry for \<^verbatim>\<open>critical\<close> and one for \<^verbatim>\<open>high\<close> and both are zero.
\<close>

theorem passed_iff_no_critical_no_high:
  assumes "fst (run w path) = Returns r"
  shows "(passed r \<longleftrightarrow>
            map_of (severity_count r) ''critical'' = Some 0
            \<and> map_of (severity_count r) ''high'' = Some 0)
    \<and> ((r = failed_result \<and> severity_count r = [] \<and> \<not> passed r)
        \<or> (map fst (severity_count r) = [''critical'', ''high'', ''medium'', ''low'', ''informational'']
            \<and> (passed r \<longleftrightarrow>
                  bucket_count (severity_count r) ''critical'' = 0
                  \<and> bucket_count (severity_count r) ''high'' = 0)))"
proof -
  from run_result_cases [OF assms] show ?thesis
  proof
    assume "r = failed_result"
    then show ?thesis by (simp add: failed_result_def)
  next
    assume "\<exists>issues. count_severities issues initial_severity_count = Returns (severity_count r)
          \<and> verdict (severity_count r) = Returns (passed r)"
    then obtain issues where
      cs: "count_severities issues initial_severity_count = Returns (severity_count r)"
      and v: "verdict (severity_count r) = Returns (passed r)"
      by blast
    from count_severities_adds [OF cs]
    have keys: "map fst (severity_count r) = [''critical'', ''high'', ''medium'', ''low'', ''informational'']"
      by (simp add: initial_severity_count_def)
    from count_severities_adds [OF cs] obtain c h where
      c: "map_of (severity_count r) ''critical'' = Some c"
      and h: "map_of (severity_count r) ''high'' = Some h"
      by (simp add: initial_severity_count_def)
    from verdict_Returns [OF v] c h have p: "passed r \<longleftrightarrow> c = 0 \<and> h = 0"
      by auto
    from keys c h p show ?thesis by (simp add: bucket_count_def)
  qed
qed

theorem passed_iff_no_critical_no_high_witness:
  "fst (run (slither_world exit_ok (Inr sample_report)) ''Token.sol'') = Returns sample_result
   \<and> \<not> passed sample_result
   \<and> map_of (severity_count sample_result) ''high'' = Some 1
   \<and> bucket_count (severity_count sample_result) ''high'' = 1"
proof -
  have r: "fst (run (slither_world exit_ok (Inr sample_report)) ''Token.sol'') = Returns sample_result"
    using run_success [OF sample_run_try] by (simp add: logs_written [OF sample_logs(2)])
  have high: "map_of (severity_count sample_result) ''high'' = Some 1"
    by (simp add: sample_result_def)
  from passed_iff_no_critical_no_high [OF r] high have "\<not> passed sample_result"
    by simp
  with r high show ?thesis by (simp add: bucket_count_def)
qed

text \<open>
  The claim as the specification states it fails on the failure paths: when the
  analyzer exits with code 1 the result holds no critical and no high finding, and the
  verdict is false. The expression of line 168 is not even defined on that result.
\<close>

theorem passed_iff_counterexample:
  "fst (run (slither_world exit_failed (Inr sample_report)) ''Token.sol'') = Returns failed_result
   \<and> \<not> (passed failed_result \<longleftrightarrow>
          bucket_count (severity_count failed_result) ''critical'' = 0
          \<and> bucket_count (severity_count failed_result) ''high'' = 0)
   \<and> verdict (severity_count failed_result) = Raises (Exn KeyError (quoted ''critical''))"
proof -
  have "fst (run (slither_world exit_failed (Inr sample_report)) ''Token.sol'') = Returns failed_result"
    by code_simp
  then show ?thesis
    by (simp add: failed_result_def bucket_count_def verdict_def subscript_def)
qed

section \<open>Tool availability\<close>

lemma version_outcome:
  "subprocess_run w (version_args exe) =
     (case process w [exe, ''--version''] of
        Call_fails e \<Rightarrow> Raises e
      | Finishes d cp \<Rightarrow>
          if returncode cp \<noteq> 0 then Raises (Exn CalledProcessError ''non-zero exit status'')
          else Returns cp
      | Never_finishes \<Rightarrow> Blocks)"
  by (simp add: subprocess_run_def version_args_def split: proc_behaviour.splits)

lemma check_tool_installed_command:
  "tool_command tool = Some exe \<Longrightarrow>
   check_tool_installed w tool =
     (case process w [exe, ''--version''] of
        Call_fails e \<Rightarrow>
          (case e of Exn k m \<Rightarrow>
             if k = CalledProcessError \<or> k = FileNotFoundError then Returns False
             else Raises (Exn k m))
      | Finishes d cp \<Rightarrow> if returncode cp \<noteq> 0 then Returns False else Returns True
      | Never_finishes \<Rightarrow> Blocks,
      [Subprocess (version_args exe)])"
  by (simp add: check_tool_installed_def version_outcome split: proc_behaviour.splits exn.splits)

text \<open>
  Claim C8, as the code has it. For each of the four tools the check has a branch
  for, it starts the tool's version command with the output captured,
  \<^verbatim>\<open>check=True\<close> and no time limit. It returns true exactly when the process exits
  with code 0, and false when the process exits with another code and when the
  executable is missing (\<^verbatim>\<open>FileNotFoundError\<close>).
\<close>

theorem check_tool_installed_behaviour:
  assumes "(tool, exe) \<in> set [(''slither'', ''slither''), (''mythril'', ''myth''),
             (''echidna'', ''echidna''), (''certora'', ''certoraRun'')]"
  shows "snd (check_tool_installed w tool) =
           [Subprocess \<lparr>argv = [exe, ''--version''], capture_output = True, text_mode = False,
                        timeout = None, check = True\<rparr>]
    \<and> (fst (check_tool_installed w tool) = Returns True \<longleftrightarrow>
          (\<exists>d cp. process w [exe, ''--version''] = Finishes d cp \<and> returncode cp = 0))
    \<and> ((\<exists>d cp. process w [exe, ''--version''] = Finishes d cp \<and> returncode cp \<noteq> 0)
          \<longrightarrow> fst (check_tool_installed w tool) = Returns False)
    \<and> ((\<exists>m. process w [exe, ''--version''] = Call_fails (Exn FileNotFoundError m))
          \<longrightarrow> fst (check_tool_installed w tool) = Returns False)"
proof -
  from assms have cmd: "tool_command tool = Some exe"
    by (auto simp: tool_command_def)
  show ?thesis
    unfolding check_tool_installed_command [OF cmd]
    by (cases "process w [exe, ''--version'']")
      (auto simp: version_args_def split: exn.splits)
qed

text \<open>
  What the check does otherwise: an exception other than the two it catches is passed
  on, a process that never exits blocks it, and a name without a branch (such as
  \<^verbatim>\<open>mythx\<close> of \<^verbatim>\<open>TOOLS_CONFIG\<close>) is reported as installed without starting anything.
\<close>

lemma check_tool_installed_uncaught:
  assumes "tool_command tool = Some exe"
    and "process w [exe, ''--version''] = Call_fails (Exn k m)"
    and "k \<noteq> FileNotFoundError" and "k \<noteq> CalledProcessError"
  shows "fst (check_tool_installed w tool) = Raises (Exn k m)"
  using assms by (simp add: check_tool_installed_command)

lemma check_tool_installed_blocks:
  assumes "tool_command tool = Some exe"
    and "process w [exe, ''--version''] = Never_finishes"
  shows "fst (check_tool_installed w tool) = Blocks"
  using assms by (simp add: check_tool_installed_command)

lemma check_tool_installed_unknown:
  "tool_command tool = None \<Longrightarrow> check_tool_installed w tool = (Returns True, [])"
  by (simp add: check_tool_installed_def)

lemma check_tool_installed_mythx: "check_tool_installed base_world ''mythx'' = (Returns True, [])"
  by (simp add: check_tool_installed_unknown tool_command_def)

theorem check_tool_installed_behaviour_witness:
  "check_tool_installed (slither_world exit_ok (Inr sample_report)) ''slither''
     = (Returns True,
        [Subprocess \<lparr>argv = [''slither'', ''--version''], capture_output = True, text_mode = False,
                     timeout = None, check = True\<rparr>])
   \<and> fst (check_tool_installed base_world ''mythril'') = Returns False
   \<and> fst (check_tool_installed (tool_world exit_failed) ''certora'') = Returns False"
proof -
  let ?w = "slither_world exit_ok (Inr sample_report)"
  have in1: "(''slither'', ''slither'') \<in> set [(''slither'', ''slither''), (''mythril'', ''myth''),
             (''echidna'', ''echidna''), (''certora'', ''certoraRun'')]"
    by simp
  have in2: "(''mythril'', ''myth'') \<in> set [(''slither'', ''slither''), (''mythril'', ''myth''),
             (''echidna'', ''echidna''), (''certora'', ''certoraRun'')]"
    by simp
  have in3: "(''certora'', ''certoraRun'') \<in> set [(''slither'', ''slither''), (''mythril'', ''myth''),
             (''echidna'', ''echidna''), (''certora'', ''certoraRun'')]"
    by simp
  have p1: "\<exists>d cp. process ?w [''slither'', ''--version''] = Finishes d cp \<and> returncode cp = 0"
    by (simp add: slither_world_def base_world_def)
  have p2: "\<exists>m. process base_world [''myth'', ''--version''] = Call_fails (Exn FileNotFoundError m)"
    by (simp add: base_world_def)
  have p3: "\<exists>d cp. process (tool_world exit_failed) [''certoraRun'', ''--version''] = Finishes d cp
      \<and> returncode cp \<noteq> 0"
    by (simp add: tool_world_def base_world_def exit_failed_def)
  from check_tool_installed_behaviour [OF in1, of ?w] p1
  have 1: "fst (check_tool_installed ?w ''slither'') = Returns True"
    and ev: "snd (check_tool_installed ?w ''slither'') =
           [Subprocess \<lparr>argv = [''slither'', ''--version''], capture_output = True, text_mode = False,
                        timeout = None, check = True\<rparr>]"
    by blast+
  from check_tool_installed_behaviour [OF in2, of base_world] p2
  have 2: "fst (check_tool_installed base_world ''mythril'') = Returns False"
    by blast
  from check_tool_installed_behaviour [OF in3, of "tool_world exit_failed"] p3
  have 3: "fst (check_tool_installed (tool_world exit_failed) ''certora'') = Returns False"
    by blast
  from 1 ev have "check_tool_installed ?w ''slither''
     = (Returns True,
        [Subprocess \<lparr>argv = [''slither'', ''--version''], capture_output = True, text_mode = False,
                     timeout = None, check = True\<rparr>])"
    by (simp add: prod_eq_iff)
  with 2 3 show ?thesis by blast
qed

text \<open>
  The claim as the specification states it fails: the version command is started
  without a time limit, so a tool that never exits blocks the check; and an exception
  other than the two that are caught, such as \<^verbatim>\<open>PermissionError\<close> for a file that may
  not be executed, is passed on to the caller.
\<close>

theorem check_tool_installed_counterexample:
  "check_tool_installed (tool_world Never_finishes) ''slither''
     = (Blocks,
        [Subprocess \<lparr>argv = [''slither'', ''--version''], capture_output = True, text_mode = False,
                     timeout = None, check = True\<rparr>])
   \<and> fst (check_tool_installed (tool_world (Call_fails (Exn PermissionError ''Permission denied'')))
        ''slither'') = Raises (Exn PermissionError ''Permission denied'')"
  by code_simp

section \<open>Path validation\<close>



section \<open>On-chain metadata: the placeholders\<close>



section \<open>On-chain metadata: the two requests\<close>

lemma find_creation_none:
  "\<forall>tx \<in> set txs. \<exists>kvs. tx = JObj kvs \<and> map_of kvs ''to'' \<noteq> Some (JStr []) \<Longrightarrow>
   find_creation w txs d c = Returns (d, c)"
  by (induction txs) (auto split: option.splits)

lemma find_creation_first:
  assumes "\<forall>tx \<in> set pre. \<exists>kvs. tx = JObj kvs \<and> map_of kvs ''to'' \<noteq> Some (JStr [])"
    and "map_of kvs ''to'' = Some (JStr [])"
    and "py_int w (case map_of kvs ''timeStamp'' of Some v \<Rightarrow> v | None \<Rightarrow> JInt 0) = Inr t"
    and "fromtimestamp_iso w t = Inr date"
  shows "find_creation w (pre @ JObj kvs # post) d c
      = Returns (case map_of kvs ''from'' of Some v \<Rightarrow> v | None \<Rightarrow> JStr ''Unknown'', date)"
  using assms by (induction pre) (auto split: option.splits)

lemma parse_transactions_list:
  assumes "map_of tkvs ''status'' = Some (JStr ''1'')"
    and "map_of tkvs ''result'' = Some (JList txs)"
  shows "parse_transactions w (JObj tkvs)
      = obind (find_creation w txs (JStr ''Unknown'') ''Unknown'')
          (\<lambda>(d, c). Returns (length txs, d, c))"
  using assms by (cases txs) (simp_all add: parse_transactions_def)

text \<open>Without status \<^verbatim>\<open>1\<close> the answer is not read: count 0, both fields \<^verbatim>\<open>Unknown\<close>.\<close>

lemma parse_transactions_other_status:
  "map_of tkvs ''status'' \<noteq> Some (JStr ''1'') \<Longrightarrow>
   parse_transactions w (JObj tkvs) = Returns (0, JStr ''Unknown'', ''Unknown'')"
  by (auto simp: parse_transactions_def split: option.splits)

lemma fetch_with_key:
  assumes "a \<noteq> []" and "getenv w ''ETHERSCAN_API_KEY'' = Some k" and "k \<noteq> []"
    and "requests_installed w"
  shows "fetch_etherscan_data w (Some a)
      = (try_except (fst (fetch_try w a k)) (fetch_handler a), snd (fetch_try w a k))"
  using assms by (simp add: fetch_etherscan_data_def split: prod.splits)

text \<open>
  Claim C9, as the code has it. Both requests succeed, the answer to the first
  reports status \<^verbatim>\<open>1\<close> and carries the list of transactions, and the answer to the
  second is parsed without an exception. If every transaction is an object whose
  \<^verbatim>\<open>to\<close> is not the empty string, the deployer address and the creation date are
  \<^verbatim>\<open>Unknown\<close> and the transaction count is the length of the list. If the list has a
  first transaction whose \<^verbatim>\<open>to\<close> is the empty string, and its time stamp converts,
  the deployer address is its \<^verbatim>\<open>from\<close> (\<^verbatim>\<open>Unknown\<close> when it has none), the creation
  date is the ISO form of its time stamp, and the transaction count is again the length
  of the whole list.
\<close>

theorem creation_scan:
  assumes "a \<noteq> []" and "getenv w ''ETHERSCAN_API_KEY'' = Some k" and "k \<noteq> []"
    and "requests_installed w"
    and "http_get_json w (tx_url a k) = Inr (JObj tkvs)"
    and "map_of tkvs ''status'' = Some (JStr ''1'')"
    and "map_of tkvs ''result'' = Some (JList txs)"
    and "http_get_json w (source_url a k) = Inr sd"
    and "parse_verification sd = Returns vs"
  shows "((\<forall>tx \<in> set txs. \<exists>kvs. tx = JObj kvs \<and> map_of kvs ''to'' \<noteq> Some (JStr [])) \<longrightarrow>
            fst (fetch_etherscan_data w (Some a)) =
              Returns [(''contract_address'', JStr a),
                       (''verification_status'', JStr vs),
                       (''transaction_count'', JInt (int (length txs))),
                       (''deployer_address'', JStr ''Unknown''),
                       (''creation_date'', JStr ''Unknown''),
                       (''api_endpoint'', JStr (replace_str k ''***'' (tx_url a k)))])
    \<and> (\<forall>pre kvs post t date.
          txs = pre @ JObj kvs # post
          \<and> (\<forall>tx \<in> set pre. \<exists>kvs'. tx = JObj kvs' \<and> map_of kvs' ''to'' \<noteq> Some (JStr []))
          \<and> map_of kvs ''to'' = Some (JStr [])
          \<and> py_int w (case map_of kvs ''timeStamp'' of Some v \<Rightarrow> v | None \<Rightarrow> JInt 0) = Inr t
          \<and> fromtimestamp_iso w t = Inr date
          \<longrightarrow>
            fst (fetch_etherscan_data w (Some a)) =
              Returns [(''contract_address'', JStr a),
                       (''verification_status'', JStr vs),
                       (''transaction_count'', JInt (int (length txs))),
                       (''deployer_address'',
                          case map_of kvs ''from'' of Some v \<Rightarrow> v | None \<Rightarrow> JStr ''Unknown''),
                       (''creation_date'', JStr date),
                       (''api_endpoint'', JStr (replace_str k ''***'' (tx_url a k)))])
    \<and> snd (fetch_etherscan_data w (Some a))
        = [HttpGet (tx_url a k) 10, HttpGet (source_url a k) 10]"
proof -
  note fetch = fetch_with_key [OF assms(1-4)]
  note parse = parse_transactions_list [OF assms(6,7), of w]
  have events: "snd (fetch_etherscan_data w (Some a))
        = [HttpGet (tx_url a k) 10, HttpGet (source_url a k) 10]"
    by (simp add: fetch fetch_try_def assms(5,8))
  have none: "(\<forall>tx \<in> set txs. \<exists>kvs. tx = JObj kvs \<and> map_of kvs ''to'' \<noteq> Some (JStr [])) \<longrightarrow>
            fst (fetch_etherscan_data w (Some a)) =
              Returns [(''contract_address'', JStr a),
                       (''verification_status'', JStr vs),
                       (''transaction_count'', JInt (int (length txs))),
                       (''deployer_address'', JStr ''Unknown''),
                       (''creation_date'', JStr ''Unknown''),
                       (''api_endpoint'', JStr (replace_str k ''***'' (tx_url a k)))]"
  proof
    assume "\<forall>tx \<in> set txs. \<exists>kvs. tx = JObj kvs \<and> map_of kvs ''to'' \<noteq> Some (JStr [])"
    from find_creation_none [OF this]
    have "parse_transactions w (JObj tkvs) = Returns (length txs, JStr ''Unknown'', ''Unknown'')"
      by (simp add: parse)
    then show "fst (fetch_etherscan_data w (Some a)) =
              Returns [(''contract_address'', JStr a),
                       (''verification_status'', JStr vs),
                       (''transaction_count'', JInt (int (length txs))),
                       (''deployer_address'', JStr ''Unknown''),
                       (''creation_date'', JStr ''Unknown''),
                       (''api_endpoint'', JStr (replace_str k ''***'' (tx_url a k)))]"
      by (simp add: fetch fetch_try_def assms(5,8,9))
  qed
  have first: "\<forall>pre kvs post t date.
          txs = pre @ JObj kvs # post
          \<and> (\<forall>tx \<in> set pre. \<exists>kvs'. tx = JObj kvs' \<and> map_of kvs' ''to'' \<noteq> Some (JStr []))
          \<and> map_of kvs ''to'' = Some (JStr [])
          \<and> py_int w (case map_of kvs ''timeStamp'' of Some v \<Rightarrow> v | None \<Rightarrow> JInt 0) = Inr t
          \<and> fromtimestamp_iso w t = Inr date
          \<longrightarrow>
            fst (fetch_etherscan_data w (Some a)) =
              Returns [(''contract_address'', JStr a),
                       (''verification_status'', JStr vs),
                       (''transaction_count'', JInt (int (length txs))),
                       (''deployer_address'',
                          case map_of kvs ''from'' of Some v \<Rightarrow> v | None \<Rightarrow> JStr ''Unknown''),
                       (''creation_date'', JStr date),
                       (''api_endpoint'', JStr (replace_str k ''***'' (tx_url a k)))]"
  proof (intro allI impI, elim conjE)
    fix pre kvs post t date
    assume txs: "txs = pre @ JObj kvs # post"
      and pre: "\<forall>tx \<in> set pre. \<exists>kvs'. tx = JObj kvs' \<and> map_of kvs' ''to'' \<noteq> Some (JStr [])"
      and dest: "map_of kvs ''to'' = Some (JStr [])"
      and ts: "py_int w (case map_of kvs ''timeStamp'' of Some v \<Rightarrow> v | None \<Rightarrow> JInt 0) = Inr t"
      and date: "fromtimestamp_iso w t = Inr date"
    from find_creation_first [OF pre dest ts date]
    have "parse_transactions w (JObj tkvs)
        = Returns (length txs, case map_of kvs ''from'' of Some v \<Rightarrow> v | None \<Rightarrow> JStr ''Unknown'', date)"
      by (simp add: parse txs)
    then show "fst (fetch_etherscan_data w (Some a)) =
              Returns [(''contract_address'', JStr a),
                       (''verification_status'', JStr vs),
                       (''transaction_count'', JInt (int (length txs))),
                       (''deployer_address'',
                          case map_of kvs ''from'' of Some v \<Rightarrow> v | None \<Rightarrow> JStr ''Unknown''),
                       (''creation_date'', JStr date),
                       (''api_endpoint'', JStr (replace_str k ''***'' (tx_url a k)))]"
      by (simp add: fetch fetch_try_def assms(5,8,9))
  qed
  from none first events show ?thesis by blast
qed

lemma sample_explorer:
  "getenv (etherscan_world h) ''ETHERSCAN_API_KEY'' = Some ''SECRET''"
  "requests_installed (etherscan_world h)"
  "http_get_json (etherscan_world (explorer txd sd)) (tx_url ''0xc0ffee'' ''SECRET'') = Inr txd"
  "http_get_json (etherscan_world (explorer txd sd)) (source_url ''0xc0ffee'' ''SECRET'') = Inr sd"
  by (simp_all add: etherscan_world_def base_world_def explorer_def tx_url_def source_url_def
      ETHERSCAN_API_def)

lemma sample_verification: "parse_verification source_answer = Returns ''verified''"
  by code_simp

theorem creation_scan_witness:
  "fst (fetch_etherscan_data
         (etherscan_world (explorer (tx_answer ''1'' [tx_plain, tx_plain]) source_answer))
         (Some ''0xc0ffee'')) =
     Returns [(''contract_address'', JStr ''0xc0ffee''),
              (''verification_status'', JStr ''verified''),
              (''transaction_count'', JInt 2),
              (''deployer_address'', JStr ''Unknown''),
              (''creation_date'', JStr ''Unknown''),
              (''api_endpoint'', JStr (replace_str ''SECRET'' ''***'' (tx_url ''0xc0ffee'' ''SECRET'')))]
   \<and> fst (fetch_etherscan_data
         (etherscan_world (explorer (tx_answer ''1'' [tx_plain, tx_create, tx_plain]) source_answer))
         (Some ''0xc0ffee'')) =
     Returns [(''contract_address'', JStr ''0xc0ffee''),
              (''verification_status'', JStr ''verified''),
              (''transaction_count'', JInt 3),
              (''deployer_address'', JStr ''0xdeployer''),
              (''creation_date'', JStr ''2015-07-30T15:26:28''),
              (''api_endpoint'', JStr (replace_str ''SECRET'' ''***'' (tx_url ''0xc0ffee'' ''SECRET'')))]"
proof -
  let ?wa = "etherscan_world (explorer (tx_answer ''1'' [tx_plain, tx_plain]) source_answer)"
  let ?wb = "etherscan_world (explorer (tx_answer ''1'' [tx_plain, tx_create, tx_plain]) source_answer)"
  let ?fields = "[(''hash'', JStr ''0x02''), (''from'', JStr ''0xdeployer''), (''to'', JStr []),
           (''timeStamp'', JStr ''1438269988'')]"
  have addr: "''0xc0ffee'' \<noteq> []" and key: "''SECRET'' \<noteq> []"
    by simp_all
  have get: "http_get_json (etherscan_world (explorer (tx_answer ''1'' txs) source_answer))
        (tx_url ''0xc0ffee'' ''SECRET'')
      = Inr (JObj [(''status'', JStr ''1''), (''message'', JStr ''-''), (''result'', JList txs)])" for txs
    using sample_explorer(3) [of "tx_answer ''1'' txs" source_answer] by (simp add: tx_answer_def)
  have status: "map_of [(''status'', JStr ''1''), (''message'', JStr ''-''), (''result'', JList txs)]
      ''status'' = Some (JStr ''1'')" for txs
    by simp
  have result: "map_of [(''status'', JStr ''1''), (''message'', JStr ''-''), (''result'', JList txs)]
      ''result'' = Some (JList txs)" for txs
    by simp
  have plain: "\<forall>tx \<in> set [tx_plain, tx_plain]. \<exists>kvs. tx = JObj kvs \<and> map_of kvs ''to'' \<noteq> Some (JStr [])"
    by (simp add: tx_plain_def)
  have a: "fst (fetch_etherscan_data ?wa (Some ''0xc0ffee'')) =
     Returns [(''contract_address'', JStr ''0xc0ffee''),
              (''verification_status'', JStr ''verified''),
              (''transaction_count'', JInt (int (length [tx_plain, tx_plain]))),
              (''deployer_address'', JStr ''Unknown''),
              (''creation_date'', JStr ''Unknown''),
              (''api_endpoint'', JStr (replace_str ''SECRET'' ''***'' (tx_url ''0xc0ffee'' ''SECRET'')))]"
    by (rule creation_scan [OF addr sample_explorer(1) key sample_explorer(2)
          get status result sample_explorer(4) sample_verification,
          THEN conjunct1, THEN mp, OF plain])
  have split: "[tx_plain, tx_create, tx_plain] = [tx_plain] @ JObj ?fields # [tx_plain]
      \<and> (\<forall>tx \<in> set [tx_plain]. \<exists>kvs'. tx = JObj kvs' \<and> map_of kvs' ''to'' \<noteq> Some (JStr []))
      \<and> map_of ?fields ''to'' = Some (JStr [])
      \<and> py_int ?wb (case map_of ?fields ''timeStamp'' of Some v \<Rightarrow> v | None \<Rightarrow> JInt 0)
          = Inr 1438269988
      \<and> fromtimestamp_iso ?wb 1438269988 = Inr ''2015-07-30T15:26:28''"
    by (simp add: tx_plain_def tx_create_def etherscan_world_def base_world_def)
  have b: "fst (fetch_etherscan_data ?wb (Some ''0xc0ffee'')) =
     Returns [(''contract_address'', JStr ''0xc0ffee''),
              (''verification_status'', JStr ''verified''),
              (''transaction_count'', JInt (int (length [tx_plain, tx_create, tx_plain]))),
              (''deployer_address'',
                 case map_of ?fields ''from'' of Some v \<Rightarrow> v | None \<Rightarrow> JStr ''Unknown''),
              (''creation_date'', JStr ''2015-07-30T15:26:28''),
              (''api_endpoint'', JStr (replace_str ''SECRET'' ''***'' (tx_url ''0xc0ffee'' ''SECRET'')))]"
    by (rule creation_scan [OF addr sample_explorer(1) key sample_explorer(2)
          get status result sample_explorer(4) sample_verification,
          THEN conjunct2, THEN conjunct1, THEN spec, THEN spec, THEN spec, THEN spec, THEN spec,
          THEN mp, OF split])
  have n: "int (length [tx_plain, tx_plain]) = 2" "int (length [tx_plain, tx_create, tx_plain]) = 3"
    "(case map_of ?fields ''from'' of Some v \<Rightarrow> v | None \<Rightarrow> JStr ''Unknown'') = JStr ''0xdeployer''"
    by simp_all
  from a b show ?thesis unfolding n by (intro conjI)
qed

text \<open>
  The claim as the specification states it fails when the answer to the first
  request does not report status \<^verbatim>\<open>1\<close>: both requests succeed and the answer lists
  one transaction, none with an empty \<^verbatim>\<open>to\<close>, yet the transaction count is 0 and
  not the length of the list.
\<close>

theorem creation_scan_counterexample:
  "http_get_json (etherscan_world (explorer (tx_answer ''0'' [tx_plain]) source_answer))
       (tx_url ''0xc0ffee'' ''SECRET'') = Inr (tx_answer ''0'' [tx_plain])
   \<and> http_get_json (etherscan_world (explorer (tx_answer ''0'' [tx_plain]) source_answer))
       (source_url ''0xc0ffee'' ''SECRET'') = Inr source_answer
   \<and> py_get tx_plain ''to'' JNull = Returns (JStr ''0xc0ffee'')
   \<and> fst (fetch_etherscan_data
         (etherscan_world (explorer (tx_answer ''0'' [tx_plain]) source_answer))
         (Some ''0xc0ffee'')) =
     Returns [(''contract_address'', JStr ''0xc0ffee''),
              (''verification_status'', JStr ''verified''),
              (''transaction_count'', JInt 0),
              (''deployer_address'', JStr ''Unknown''),
              (''creation_date'', JStr ''Unknown''),
              (''api_endpoint'', JStr (replace_str ''SECRET'' ''***'' (tx_url ''0xc0ffee'' ''SECRET'')))]
   \<and> int (length [tx_plain]) \<noteq> 0"
  by code_simp

section \<open>On-chain metadata: the API key\<close>

lemma fetch_request_failure:
  assumes "a \<noteq> []" and "getenv w ''ETHERSCAN_API_KEY'' = Some k" and "k \<noteq> []"
    and "requests_installed w"
    and "http_get_json w (tx_url a k) = Inl (Exn RequestException msg)"
  shows "fetch_etherscan_data w (Some a)
      = (Returns [(''error'', JStr (''Failed to fetch data: '' @ msg)), (''contract_address'', JStr a)],
         [HttpGet (tx_url a k) 10])"
  by (simp add: fetch_with_key [OF assms(1-4)] fetch_try_def assms(5))

text \<open>
  Claim C2 fails on the network-failure path. The key is \<^verbatim>\<open>SECRET\<close> and the
  connection fails with an exception whose message names the URL of the request, as
  \<^verbatim>\<open>requests.ConnectionError\<close> does; the URL ends in \<^verbatim>\<open>apikey=SECRET\<close>. The fetcher
  puts the message into the \<^verbatim>\<open>error\<close> field as it is, and the key is in the
  returned structure. The success path masks the key in its URL (line 295).
\<close>

theorem api_key_in_error_field:
  "getenv (etherscan_world unreachable) ''ETHERSCAN_API_KEY'' = Some ''SECRET''
   \<and> connection_error_text (tx_url ''0xc0ffee'' ''SECRET'') =
       ''HTTPSConnectionPool(host='' @ quoted ''api.etherscan.io''
         @ '', port=443): Max retries exceeded with url: ''
         @ ''/api?module=account&action=txlist&address=0xc0ffee''
         @ ''&startblock=0&endblock=99999999&sort=asc&apikey=SECRET''
   \<and> fetch_etherscan_data (etherscan_world unreachable) (Some ''0xc0ffee'') =
       (Returns [(''error'', JStr (''Failed to fetch data: ''
                                    @ connection_error_text (tx_url ''0xc0ffee'' ''SECRET''))),
                 (''contract_address'', JStr ''0xc0ffee'')],
        [HttpGet (tx_url ''0xc0ffee'' ''SECRET'') 10])
   \<and> mentions ''SECRET''
        (JObj [(''error'', JStr (''Failed to fetch data: ''
                                    @ connection_error_text (tx_url ''0xc0ffee'' ''SECRET''))),
               (''contract_address'', JStr ''0xc0ffee'')])"
  by code_simp

section \<open>The orchestrator\<close>

lemma py_item_not_Blocks: "py_item v k \<noteq> Blocks"
  by (cases v) (auto split: option.splits)

lemma py_len_not_Blocks: "py_len v \<noteq> Blocks"
  by (cases v) auto

lemma first_or_self_not_Blocks: "first_or_self v \<noteq> Blocks"
  by (auto simp: first_or_self_def split: json.splits list.splits)

lemma find_creation_not_Blocks: "find_creation w txs d c \<noteq> Blocks"
  by (induction txs) (auto simp: obind_Blocks_iff py_get_not_Blocks lift_not_Blocks)

lemma parse_transactions_not_Blocks: "parse_transactions w tx_data \<noteq> Blocks"
  by (auto simp: parse_transactions_def obind_Blocks_iff py_get_not_Blocks py_item_not_Blocks
      py_len_not_Blocks py_iter_not_Blocks find_creation_not_Blocks)

lemma parse_verification_not_Blocks: "parse_verification source_data \<noteq> Blocks"
  by (auto simp: parse_verification_def obind_Blocks_iff py_get_not_Blocks py_item_not_Blocks
      first_or_self_not_Blocks)

lemma fetch_try_not_Blocks: "fst (fetch_try w a k) \<noteq> Blocks"
  by (auto simp: fetch_try_def obind_Blocks_iff parse_transactions_not_Blocks
      parse_verification_not_Blocks split: sum.splits)

text \<open>The fetcher always returns a dictionary: every exception of its requests is caught.\<close>

lemma fetch_returns: "\<exists>d. fst (fetch_etherscan_data w addr) = Returns d"
proof -
  have handled: "\<exists>d. try_except (fst (fetch_try w a k)) (fetch_handler a) = Returns d" for a k
  proof (cases "fst (fetch_try w a k)")
    case (Returns d)
    then show ?thesis by simp
  next
    case (Raises e)
    then show ?thesis by (cases e) simp
  next
    case Blocks
    with fetch_try_not_Blocks show ?thesis by blast
  qed
  show ?thesis
  proof (cases "\<exists>a k. addr = Some a \<and> a \<noteq> [] \<and> getenv w ''ETHERSCAN_API_KEY'' = Some k
      \<and> k \<noteq> [] \<and> requests_installed w")
    case True
    then obtain a k where "addr = Some a" "a \<noteq> []" "getenv w ''ETHERSCAN_API_KEY'' = Some k"
      "k \<noteq> []" "requests_installed w"
      by blast
    with fetch_with_key [of a w k] handled [of a k] show ?thesis by simp
  next
    case False
    then show ?thesis
      by (auto simp: fetch_etherscan_data_def split: option.splits)
  qed
qed

text \<open>
  With a valid path the run goes on: it asks whether Slither is installed, so the
  trace is not empty.
\<close>

lemma run_audit_valid_path:
  assumes "validate_contract_path w (contract_path p)"
  shows "Subprocess (version_args ''slither'') \<in> set (snd (run_audit w p))"
proof -
  obtain d ev1 where f: "fetch_etherscan_data w (contract_address (metadata p)) = (Returns d, ev1)"
    using fetch_returns [of w "contract_address (metadata p)"]
    by (cases "fetch_etherscan_data w (contract_address (metadata p))") auto
  have levels: "audit_level p \<in> set [QUICK, STANDARD, DEEP, FORENSIC]"
    by (cases "audit_level p") simp_all
  have probe: "snd (check_tool_installed w ''slither'') = [Subprocess (version_args ''slither'')]"
    by (simp add: check_tool_installed_def tool_command_def)
  obtain inst ev2 where c: "check_tool_installed w ''slither'' = (inst, ev2)"
    by (cases "check_tool_installed w ''slither''")
  with probe have ev2: "ev2 = [Subprocess (version_args ''slither'')]" by simp
  show ?thesis
    using assms f levels c ev2
    by (cases inst) (auto simp: run_audit_def Let_def split: prod.splits)
qed

section \<open>The exit code\<close>

lemma main_Returns_iff:
  "fst (main w a) = Returns c \<longleftrightarrow>
     (\<exists>rep p. fst (run_audit w (new_pipeline a)) = Returns (rep, p)
        \<and> write_report w (output_file a) = None
        \<and> c = exit_code (results p))"
  by (cases "run_audit w (new_pipeline a)"; cases "fst (run_audit w (new_pipeline a))")
    (auto simp: main_def split: option.splits)

text \<open>
  Claim C5. The exit code is 0 exactly when every recorded result passed, and 1
  otherwise; with no recorded result it is 0. A run of \<open>main\<close> that completes exits
  with that code for the results the pipeline holds after \<open>run_audit\<close>.
\<close>

theorem exit_code_all_passed:
  "(exit_code rs = 0 \<longleftrightarrow> (\<forall>r \<in> set rs. passed r))
   \<and> (exit_code rs = 1 \<longleftrightarrow> (\<exists>r \<in> set rs. \<not> passed r))
   \<and> exit_code [] = 0
   \<and> (fst (main w a) = Returns c \<longleftrightarrow>
        (\<exists>rep p. fst (run_audit w (new_pipeline a)) = Returns (rep, p)
           \<and> write_report w (output_file a) = None
           \<and> c = exit_code (results p)))"
proof -
  have zero: "exit_code rs = 0 \<longleftrightarrow> (\<forall>r \<in> set rs. passed r)"
    by (simp add: exit_code_def list_all_iff)
  have one: "exit_code rs = 1 \<longleftrightarrow> (\<exists>r \<in> set rs. \<not> passed r)"
    by (simp add: exit_code_def list_all_iff)
  have empty: "exit_code [] = 0"
    by (simp add: exit_code_def)
  from zero one empty main_Returns_iff [of w a c] show ?thesis by blast
qed

lemma sample_audits:
  "fst (run_audit base_world (new_pipeline sample_args))
     = Returns (compile_report base_world
                  ((new_pipeline sample_args)
                     \<lparr>metadata := \<lparr>contract_address = None,
                                    etherscan_data = Some no_address_placeholder\<rparr>\<rparr>),
                (new_pipeline sample_args)
                  \<lparr>metadata := \<lparr>contract_address = None,
                                 etherscan_data = Some no_address_placeholder\<rparr>\<rparr>)"
  "fst (run_audit (slither_world exit_failed (Inr sample_report)) (new_pipeline sample_args))
     = Returns (compile_report (slither_world exit_failed (Inr sample_report))
                  ((new_pipeline sample_args)
                     \<lparr>results := [failed_result],
                      metadata := \<lparr>contract_address = None,
                                    etherscan_data = Some no_address_placeholder\<rparr>\<rparr>),
                (new_pipeline sample_args)
                  \<lparr>results := [failed_result],
                   metadata := \<lparr>contract_address = None,
                                 etherscan_data = Some no_address_placeholder\<rparr>\<rparr>)"
  by code_simp+

theorem exit_code_all_passed_witness:
  "fst (main base_world sample_args) = Returns 0
   \<and> fst (main (slither_world exit_failed (Inr sample_report)) sample_args) = Returns 1
   \<and> exit_code [sample_result] = 1"
proof -
  let ?w = "slither_world exit_failed (Inr sample_report)"
  let ?md = "\<lparr>contract_address = None, etherscan_data = Some no_address_placeholder\<rparr>"
  have out: "write_report base_world (output_file sample_args) = None"
    "write_report ?w (output_file sample_args) = None"
    by (simp_all add: slither_world_def base_world_def)
  have none: "results ((new_pipeline sample_args)\<lparr>metadata := ?md\<rparr>) = []"
    by (simp add: new_pipeline_def)
  have one: "results ((new_pipeline sample_args)\<lparr>results := [failed_result], metadata := ?md\<rparr>)
      = [failed_result]"
    by simp
  have "exit_code [] = 0"
    using exit_code_all_passed by blast
  with sample_audits(1) out(1) none have a: "fst (main base_world sample_args) = Returns 0"
    using exit_code_all_passed [of _ base_world sample_args 0] by metis
  have "\<exists>r \<in> set [failed_result]. \<not> passed r"
    by (simp add: failed_result_def)
  then have "exit_code [failed_result] = 1"
    using exit_code_all_passed [of "[failed_result]"] by blast
  with sample_audits(2) out(2) one have b: "fst (main ?w sample_args) = Returns 1"
    using exit_code_all_passed [of _ ?w sample_args 1] by metis
  have "\<exists>r \<in> set [sample_result]. \<not> passed r"
    by (simp add: sample_result_def)
  then have c: "exit_code [sample_result] = 1"
    using exit_code_all_passed [of "[sample_result]"] by blast
  from a b c show ?thesis by (intro conjI)
qed

end
